theory Spec2Isabelle
  imports Complex_Main
begin

section \<open>Python values as the program sees them\<close>

text \<open>
  The search payload handed to \<^verbatim>\<open>extract_contents\<close> is untyped. The function observes
  of a value only whether it is \<^verbatim>\<open>None\<close>, a list, a dict or a string, what a dict holds
  under a string key, and its truth value. A dict is an association list looked up by
  its first matching key. \<open>POther t\<close> stands for a value of any other type (a float, a
  tuple, an object) whose truth value is \<open>t\<close>. A string is a list of characters, each
  standing for one code point.
\<close>

datatype pyval =
    PNone
  | PBool bool
  | PInt int
  | PStr string
  | PList "pyval list"
  | PDict "(string \<times> pyval) list"
  | POther bool

text \<open>Exceptions derived from \<^verbatim>\<open>Exception\<close>, the ones \<^verbatim>\<open>except Exception\<close> catches.\<close>

datatype py_exn =
    TypeError
  | AttributeError
  | ConnectionError
  | OtherException string

fun truthy :: "pyval \<Rightarrow> bool" where
  "truthy PNone = False"
| "truthy (PBool b) = b"
| "truthy (PInt i) = (i \<noteq> 0)"
| "truthy (PStr s) = (s \<noteq> [])"
| "truthy (PList xs) = (xs \<noteq> [])"
| "truthy (PDict kv) = (kv \<noteq> [])"
| "truthy (POther t) = t"

text \<open>\<^verbatim>\<open>a or b\<close> is \<^verbatim>\<open>a\<close> when \<^verbatim>\<open>a\<close> is true, else \<^verbatim>\<open>b\<close>.\<close>

definition py_or :: "pyval \<Rightarrow> pyval \<Rightarrow> pyval" where
  "py_or a b = (if truthy a then a else b)"

text \<open>\<^verbatim>\<open>d.get(k)\<close>: the value under \<^verbatim>\<open>k\<close>, or \<^verbatim>\<open>None\<close>.\<close>

definition dict_get :: "(string \<times> pyval) list \<Rightarrow> string \<Rightarrow> pyval" where
  "dict_get kv k = (case map_of kv k of None \<Rightarrow> PNone | Some v \<Rightarrow> v)"

fun is_str :: "pyval \<Rightarrow> bool" where
  "is_str (PStr s) = True"
| "is_str v = False"

fun the_str :: "pyval \<Rightarrow> string" where
  "the_str (PStr s) = s"
| "the_str v = []"

fun is_list :: "pyval \<Rightarrow> bool" where
  "is_list (PList xs) = True"
| "is_list v = False"

fun is_dict :: "pyval \<Rightarrow> bool" where
  "is_dict (PDict kv) = True"
| "is_dict v = False"

subsection \<open>String operations\<close>

text \<open>
  \<^verbatim>\<open>str.strip()\<close> removes leading and trailing whitespace. Below code point 256 Python's
  whitespace is 9 to 13, 28 to 32, 133 and 160.
\<close>

definition is_space :: "char \<Rightarrow> bool" where
  "is_space c = (let n = (of_char c :: nat) in
     (9 \<le> n \<and> n \<le> 13) \<or> (28 \<le> n \<and> n \<le> 32) \<or> n = 133 \<or> n = 160)"

definition strip :: "string \<Rightarrow> string" where
  "strip s = rev (dropWhile is_space (rev (dropWhile is_space s)))"

fun str_join :: "string \<Rightarrow> string list \<Rightarrow> string" where
  "str_join sep [] = []"
| "str_join sep [x] = x"
| "str_join sep (x # y # ys) = x @ sep @ str_join sep (y # ys)"

text \<open>\<^verbatim>\<open>sep.join(xs)\<close> raises \<^verbatim>\<open>TypeError\<close> when an item of \<^verbatim>\<open>xs\<close> is not a string.\<close>

definition py_join :: "string \<Rightarrow> pyval list \<Rightarrow> py_exn + string" where
  "py_join sep xs =
     (if list_all is_str xs then Inr (str_join sep (map the_str xs)) else Inl TypeError)"

definition blank_line :: string where
  "blank_line = [CHR 0x0A, CHR 0x0A]"

section \<open>The response normalizer: \<^verbatim>\<open>extract_contents\<close>\<close>

text \<open>Lines 84 to 91: the document list chosen from the shape of \<^verbatim>\<open>results\<close>.\<close>

fun docs_of :: "pyval \<Rightarrow> pyval list" where
  "docs_of (PList xs) = xs"
| "docs_of (PDict kv) =
     (case map_of kv ''results'' of
        Some (PList xs) \<Rightarrow> xs
      | _ \<Rightarrow> [PDict kv])"
| "docs_of v = []"

text \<open>
  Lines 96 to 104: the body of the loop for one element \<^verbatim>\<open>d\<close>, on the two accumulators
  \<^verbatim>\<open>contents\<close> and \<^verbatim>\<open>sources\<close>. A citation is the dict \<^verbatim>\<open>{"title": title, "url": url}\<close>.
\<close>

definition loop_body :: "pyval \<Rightarrow> pyval list \<times> pyval list \<Rightarrow> pyval list \<times> pyval list" where
  "loop_body d acc =
     (case d of
        PDict kv \<Rightarrow>
          (let contents = fst acc;
               sources = snd acc;
               c = py_or (py_or (dict_get kv ''content'') (dict_get kv ''snippet'')) (PStr '''');
               contents' = (if truthy c then contents @ [c] else contents);
               url = py_or (py_or (dict_get kv ''url'') (dict_get kv ''link'')) (PStr '''');
               title = py_or (dict_get kv ''title'') (PStr '''');
               sources' = (if truthy url \<or> truthy title
                           then sources @ [PDict [(''title'', title), (''url'', url)]]
                           else sources)
           in (contents', sources'))
      | _ \<Rightarrow> acc)"

text \<open>Line 95: the loop over \<^verbatim>\<open>docs\<close>, in order.\<close>

fun for_docs :: "pyval list \<Rightarrow> pyval list \<times> pyval list \<Rightarrow> pyval list \<times> pyval list" where
  "for_docs [] acc = acc"
| "for_docs (d # ds) acc = for_docs ds (loop_body d acc)"

text \<open>Lines 75 to 106. The result is the pair \<^verbatim>\<open>(text, sources)\<close>, or the exception raised.\<close>

definition extract_contents :: "pyval \<Rightarrow> py_exn + (string \<times> pyval list)" where
  "extract_contents results =
     (if results = PNone then Inr ('''', [])
      else
        (let docs = docs_of results;
             acc = for_docs docs ([], [])
         in case py_join blank_line (fst acc) of
              Inl e \<Rightarrow> Inl e
            | Inr joined \<Rightarrow> Inr (strip joined, snd acc)))"

subsection \<open>The loop in the words of the specification\<close>

text \<open>
  A value is non-empty when it is true in Python's sense: a present, non-empty string
  is, and \<^verbatim>\<open>None\<close> (an absent field) and the empty string are not.
  \<open>first_non_empty\<close> is the first non-empty value of a list, the empty string when
  there is none.
\<close>

definition first_non_empty :: "pyval list \<Rightarrow> pyval" where
  "first_non_empty vs = (case filter truthy vs of [] \<Rightarrow> PStr '''' | v # _ \<Rightarrow> v)"

definition field :: "pyval \<Rightarrow> string \<Rightarrow> pyval" where
  "field d k = (case d of PDict kv \<Rightarrow> dict_get kv k | _ \<Rightarrow> PNone)"

definition citation :: "pyval \<Rightarrow> pyval \<Rightarrow> pyval" where
  "citation title url = PDict [(''title'', title), (''url'', url)]"

text \<open>The text fragments one element contributes: none or one.\<close>

definition spec_fragments :: "pyval \<Rightarrow> pyval list" where
  "spec_fragments d =
     (if is_dict d
      then (let c = first_non_empty [field d ''content'', field d ''snippet'']
            in if truthy c then [c] else [])
      else [])"

text \<open>The citations one element contributes: none or one.\<close>

definition spec_citations :: "pyval \<Rightarrow> pyval list" where
  "spec_citations d =
     (if is_dict d
      then (let url = first_non_empty [field d ''url'', field d ''link''];
                title = first_non_empty [field d ''title'']
            in if truthy url \<or> truthy title then [citation title url] else [])
      else [])"

text \<open>An element has a field when it is a mapping with that key.\<close>

definition has_field :: "pyval \<Rightarrow> string \<Rightarrow> bool" where
  "has_field d k = (case d of PDict kv \<Rightarrow> map_of kv k \<noteq> None | _ \<Rightarrow> False)"

definition lacks_all_fields :: "pyval \<Rightarrow> bool" where
  "lacks_all_fields d =
     (\<not> has_field d ''content'' \<and> \<not> has_field d ''snippet'' \<and> \<not> has_field d ''url''
      \<and> \<not> has_field d ''link'' \<and> \<not> has_field d ''title'')"

section \<open>Secrets: \<^verbatim>\<open>get_secret\<close>\<close>

text \<open>
  The process environment maps names to strings. The secret store either holds a
  mapping, or is unavailable, in which case every lookup in it raises an exception.
\<close>

datatype secret_store =
    StoreUnavailable
  | Store "string \<rightharpoonup> pyval"

text \<open>\<^verbatim>\<open>os.getenv(key, dflt)\<close>.\<close>

definition getenv :: "(string \<rightharpoonup> string) \<Rightarrow> string \<Rightarrow> string \<Rightarrow> string" where
  "getenv env key dflt = (case env key of None \<Rightarrow> dflt | Some v \<Rightarrow> v)"

text \<open>
  \<^verbatim>\<open>st.secrets.get(key, dflt)\<close>: the stored value, \<^verbatim>\<open>dflt\<close> when the key is absent, an
  exception when the store is unavailable.
\<close>

definition secrets_get :: "secret_store \<Rightarrow> string \<Rightarrow> pyval \<Rightarrow> py_exn + pyval" where
  "secrets_get store key dflt =
     (case store of
        StoreUnavailable \<Rightarrow> Inl (OtherException ''secrets not found'')
      | Store m \<Rightarrow> (case m key of None \<Rightarrow> Inr dflt | Some v \<Rightarrow> Inr v))"

text \<open>Lines 23 to 31.\<close>

definition get_secret ::
  "(string \<rightharpoonup> string) \<Rightarrow> secret_store \<Rightarrow> string \<Rightarrow> pyval \<Rightarrow> pyval" where
  "get_secret env store key dflt =
     (let v = getenv env key ''''
      in if v \<noteq> [] then PStr v
         else (case secrets_get store key dflt of
                 Inr x \<Rightarrow> x
               | Inl e \<Rightarrow> dflt))"

text \<open>\<^verbatim>\<open>os.environ.setdefault(k, v)\<close>, lines 14 to 16.\<close>

definition setdefault :: "(string \<rightharpoonup> string) \<Rightarrow> string \<Rightarrow> string \<Rightarrow> (string \<rightharpoonup> string)" where
  "setdefault env k v = (case env k of None \<Rightarrow> env(k \<mapsto> v) | Some _ \<Rightarrow> env)"

definition startup_env :: "(string \<rightharpoonup> string) \<Rightarrow> (string \<rightharpoonup> string)" where
  "startup_env env =
     setdefault (setdefault (setdefault env ''LANGCHAIN_TRACING_V2'' ''false'')
       ''LANGCHAIN_ENDPOINT'' '''') ''LANGCHAIN_API_KEY'' ''''"

section \<open>The external services\<close>

text \<open>
  The two prompts are fixed templates filled with the subject and the combined text;
  a prompt is represented by its template and the two values filled in.
\<close>

datatype prompt =
    KeywordPrompt string string
  | ReportPrompt string string

text \<open>
  A call that leaves the process: the search tool's \<^verbatim>\<open>run\<close> or \<^verbatim>\<open>invoke\<close> (with the
  API key and result cap the tool was built with, and the query), or the chat model's
  \<^verbatim>\<open>invoke\<close> (with the API key, model name and temperature it was built with, and the
  prompt).
\<close>

datatype net_call =
    TavilyRun pyval int string
  | TavilyInvoke pyval int string
  | LLMInvoke pyval string real prompt

fun is_llm_call :: "net_call \<Rightarrow> bool" where
  "is_llm_call (LLMInvoke k m t p) = True"
| "is_llm_call c = False"

fun is_report_call :: "net_call \<Rightarrow> bool" where
  "is_report_call (LLMInvoke k m t (ReportPrompt s c)) = True"
| "is_report_call c = False"

text \<open>The credential a call is made with.\<close>

fun call_key :: "net_call \<Rightarrow> pyval" where
  "call_key (TavilyRun k cap q) = k"
| "call_key (TavilyInvoke k cap q) = k"
| "call_key (LLMInvoke k m t p) = k"

text \<open>
  The services answer a call with a value or raise. For a search call the value is the
  payload; for a chat call it is the \<^verbatim>\<open>content\<close> attribute of the reply.
\<close>

type_synonym services = "net_call \<Rightarrow> py_exn + pyval"

section \<open>The search client: \<^verbatim>\<open>tavily_search\<close>\<close>

text \<open>
  Lines 63 to 73. The result is what the function returns or raises, together with
  the calls it made, in order. Building the tool makes no call and is taken not to
  raise.
\<close>

definition tavily_search ::
  "services \<Rightarrow> pyval \<Rightarrow> int \<Rightarrow> string \<Rightarrow> (py_exn + pyval) \<times> net_call list" where
  "tavily_search net key cap query =
     (case net (TavilyRun key cap query) of
        Inr r \<Rightarrow> (Inr r, [TavilyRun key cap query])
      | Inl e \<Rightarrow>
          (net (TavilyInvoke key cap query),
           [TavilyRun key cap query, TavilyInvoke key cap query]))"

section \<open>The page script\<close>

text \<open>What one run of the script reads: the environment, the store, the widgets, the services.\<close>

record world =
  environ :: "string \<rightharpoonup> string"
  secrets :: secret_store
  model :: string
  temperature :: real
  max_results :: int
  stock_name :: string
  button :: bool
  news_suffix :: string
  services :: services

text \<open>
  \<open>news_suffix\<close> is the fixed literal appended to the subject on line 116. A run ends
  in one of four ways: \<^verbatim>\<open>st.stop()\<close> after a message, the end of the script with both
  texts shown, the end of the script with nothing to do, or an uncaught exception.
\<close>

datatype stage = Keywords | Report

datatype message =
    MissingConfiguration string
  | SearchUnavailable py_exn
  | NoContent
  | GenerationFailed stage py_exn

datatype outcome =
    Stopped message
  | Finished string string
  | Idle
  | Uncaught py_exn

text \<open>
  Lines 154 to 160 and 180 to 187: one generation stage. The reply's \<^verbatim>\<open>content.strip()\<close>
  is inside the \<^verbatim>\<open>try\<close>, so a content that is not a string is a failure of the stage.
\<close>

definition llm_stage :: "services \<Rightarrow> net_call \<Rightarrow> py_exn + string" where
  "llm_stage net c =
     (case net c of
        Inl e \<Rightarrow> Inl e
      | Inr content \<Rightarrow> (if is_str content then Inr (strip (the_str content)) else Inl AttributeError))"

text \<open>
  Lines 116 to 187: the body of the button handler, given the two resolved keys. The
  call of \<^verbatim>\<open>extract_contents\<close> is outside every \<^verbatim>\<open>try\<close>, so its exception ends the run.
  Building the chat model (line 141) and showing the sources (lines 131 to 139) make no
  call and are taken not to raise.
\<close>

definition handler :: "world \<Rightarrow> pyval \<Rightarrow> pyval \<Rightarrow> outcome \<times> net_call list" where
  "handler w openai_key tavily_key =
     (let q = strip (stock_name w) @ news_suffix w;
          searched = tavily_search (services w) tavily_key (max_results w) q
      in case fst searched of
           Inl e \<Rightarrow> (Stopped (SearchUnavailable e), snd searched)
         | Inr results \<Rightarrow>
             (case extract_contents results of
                Inl e \<Rightarrow> (Uncaught e, snd searched)
              | Inr normalized \<Rightarrow>
                  (let combined_content = fst normalized;
                       kw_call = LLMInvoke openai_key (model w) (temperature w)
                                   (KeywordPrompt (stock_name w) combined_content);
                       rp_call = LLMInvoke openai_key (model w) (temperature w)
                                   (ReportPrompt (stock_name w) combined_content)
                   in if combined_content = [] then (Stopped NoContent, snd searched)
                      else
                        (case llm_stage (services w) kw_call of
                           Inl e \<Rightarrow>
                             (Stopped (GenerationFailed Keywords e), snd searched @ [kw_call])
                         | Inr keywords \<Rightarrow>
                             (case llm_stage (services w) rp_call of
                                Inl e \<Rightarrow>
                                  (Stopped (GenerationFailed Report e),
                                   snd searched @ [kw_call, rp_call])
                              | Inr report \<Rightarrow>
                                  (Finished keywords report,
                                   snd searched @ [kw_call, rp_call]))))))"

text \<open>Lines 14 to 61 and 115: the script from its start to the button.\<close>

definition app :: "world \<Rightarrow> outcome \<times> net_call list" where
  "app w =
     (let env = startup_env (environ w);
          openai_key = get_secret env (secrets w) ''OPENAI_API_KEY'' (PStr '''');
          tavily_key = get_secret env (secrets w) ''TAVILY_API_KEY'' (PStr '''')
      in if \<not> truthy openai_key then (Stopped (MissingConfiguration ''OPENAI_API_KEY''), [])
         else if \<not> truthy tavily_key then (Stopped (MissingConfiguration ''TAVILY_API_KEY''), [])
         else if button w \<and> strip (stock_name w) \<noteq> [] then handler w openai_key tavily_key
         else (Idle, []))"

section \<open>Concrete inputs\<close>

text \<open>A search service whose \<^verbatim>\<open>run\<close> fails with a connection error and whose \<^verbatim>\<open>invoke\<close> answers.\<close>

definition flaky_services :: services where
  "flaky_services c =
     (case c of
        TavilyRun k m q \<Rightarrow> Inl ConnectionError
      | TavilyInvoke k m q \<Rightarrow> Inr (PList [])
      | LLMInvoke k m t p \<Rightarrow> Inr (PStr ''ok''))"

text \<open>Services that answer every search with a fixed payload and every chat call with a fixed content.\<close>

definition fixed_services :: "pyval \<Rightarrow> pyval \<Rightarrow> services" where
  "fixed_services payload content c =
     (case c of
        TavilyRun k m q \<Rightarrow> Inr payload
      | TavilyInvoke k m q \<Rightarrow> Inr payload
      | LLMInvoke k m t p \<Rightarrow> Inr content)"

text \<open>Services whose chat model always fails.\<close>

definition llm_down_services :: "pyval \<Rightarrow> services" where
  "llm_down_services payload c =
     (case c of
        TavilyRun k m q \<Rightarrow> Inr payload
      | TavilyInvoke k m q \<Rightarrow> Inr payload
      | LLMInvoke k m t p \<Rightarrow> Inl ConnectionError)"

definition demo_world :: "services \<Rightarrow> world" where
  "demo_world net =
     \<lparr> environ = [''OPENAI_API_KEY'' \<mapsto> ''sk'', ''TAVILY_API_KEY'' \<mapsto> ''tv''],
       secrets = StoreUnavailable,
       model = ''gpt-4o-mini'',
       temperature = 0.2,
       max_results = 3,
       stock_name = ''ACME'',
       button = True,
       news_suffix = '' news'',
       services = net \<rparr>"

text \<open>The same world without the search key, in the environment or in the store.\<close>

definition keyless_world :: world where
  "keyless_world = (demo_world flaky_services)\<lparr>environ := [''OPENAI_API_KEY'' \<mapsto> ''sk'']\<rparr>"

section \<open>Properties of the normalizer\<close>

lemma loop_body_spec:
  "loop_body d (cs, ss) = (cs @ spec_fragments d, ss @ spec_citations d)"
  by (cases d)
     (simp_all add: loop_body_def spec_fragments_def spec_citations_def first_non_empty_def
        field_def citation_def py_or_def Let_def)

lemma for_docs_spec:
  "for_docs docs (cs, ss) =
     (cs @ concat (map spec_fragments docs), ss @ concat (map spec_citations docs))"
  by (induction docs arbitrary: cs ss) (simp_all add: loop_body_spec)

lemma lacks_all_fields_nothing:
  "lacks_all_fields d \<Longrightarrow> spec_fragments d = [] \<and> spec_citations d = []"
  by (cases d)
     (simp_all add: lacks_all_fields_def has_field_def spec_fragments_def spec_citations_def
        first_non_empty_def field_def dict_get_def)

lemma extract_contents_spec:
  "results \<noteq> PNone \<Longrightarrow>
   extract_contents results =
     (case py_join blank_line (concat (map spec_fragments (docs_of results))) of
        Inl e \<Rightarrow> Inl e
      | Inr joined \<Rightarrow> Inr (strip joined, concat (map spec_citations (docs_of results))))"
  by (simp add: extract_contents_def for_docs_spec Let_def split: sum.splits)

lemma strip_Nil: "strip [] = []"
  by (simp add: strip_def)

lemma py_join_Nil: "py_join sep [] = Inr []"
  by (simp add: py_join_def)

lemma spec_citations_valid:
  "s \<in> set (spec_citations d) \<Longrightarrow>
   \<exists>title url. s = PDict [(''title'', title), (''url'', url)] \<and> (truthy title \<or> truthy url)"
  by (auto simp: spec_citations_def citation_def Let_def split: if_splits)

text \<open>
  C1. The loop of \<^verbatim>\<open>extract_contents\<close> handles the elements of the document list in
  order. An element that is not a mapping is skipped. From a mapping it takes the first
  non-empty of "content" and "snippet" and, when that is non-empty, appends it to the
  text fragments; it takes the url as the first non-empty of "url" and "link" and the
  title from "title" and, when either is non-empty, appends the citation to the sources,
  with no de-duplication. So the fragments and the sources are the per-element
  contributions concatenated in the order of the list, and the returned pair is built
  from them. An element lacking all five fields changes neither list, wherever it
  stands, and the loop has no failing step.
\<close>

theorem extract_contents_in_order:
  "for_docs docs ([], []) = (concat (map spec_fragments docs), concat (map spec_citations docs))
   \<and> extract_contents (PList docs) =
       (case py_join blank_line (concat (map spec_fragments docs)) of
          Inl e \<Rightarrow> Inl e
        | Inr joined \<Rightarrow> Inr (strip joined, concat (map spec_citations docs)))
   \<and> (lacks_all_fields d \<longrightarrow>
        for_docs (pre @ d # post) ([], []) = for_docs (pre @ post) ([], []))"
  using lacks_all_fields_nothing [of d] extract_contents_spec [of "PList docs"]
  by (simp add: for_docs_spec split: sum.splits)

theorem extract_contents_in_order_witness:
  "lacks_all_fields (PDict [(''score'', PInt 1)])
   \<and> for_docs ([PDict [(''content'', PStr ''a'')]] @ PDict [(''score'', PInt 1)]
                # [PDict [(''link'', PStr ''u'')]]) ([], [])
     = for_docs ([PDict [(''content'', PStr ''a'')]] @ [PDict [(''link'', PStr ''u'')]]) ([], [])"
proof -
  have h: "lacks_all_fields (PDict [(''score'', PInt 1)])"
    by (simp add: lacks_all_fields_def has_field_def)
  from extract_contents_in_order [of "[]" "PDict [(''score'', PInt 1)]"
      "[PDict [(''content'', PStr ''a'')]]" "[PDict [(''link'', PStr ''u'')]]"] h
  show ?thesis by blast
qed

text \<open>
  C2, as stated: \<^verbatim>\<open>extract_contents\<close> returns without raising for every input value.
  It does not: a mapping whose "content" is the integer 42 puts 42 among the fragments,
  and joining the fragments raises \<^verbatim>\<open>TypeError\<close>.
\<close>

theorem extract_contents_total_counterexample:
  "extract_contents (PList [PDict [(''content'', PInt 42)]]) = Inl TypeError"
  by (simp add: extract_contents_def loop_body_def dict_get_def py_or_def py_join_def)

text \<open>
  C2, amended. For \<^verbatim>\<open>None\<close> and for a value that is neither a list nor a mapping, such
  as the integer 42, \<^verbatim>\<open>extract_contents\<close> returns empty text and no sources. In general
  it returns exactly when the input is \<^verbatim>\<open>None\<close> or every text fragment it collects is a
  string, and the only exception it raises is \<^verbatim>\<open>TypeError\<close>.
\<close>

theorem extract_contents_fail_open:
  "(results = PNone \<or> (\<not> is_list results \<and> \<not> is_dict results) \<longrightarrow>
      extract_contents results = Inr ('''', []))
   \<and> ((\<exists>text sources. extract_contents results = Inr (text, sources)) \<longleftrightarrow>
        results = PNone \<or> list_all is_str (concat (map spec_fragments (docs_of results))))
   \<and> (\<forall>e. extract_contents results = Inl e \<longrightarrow> e = TypeError)"
proof (intro conjI)
  show "results = PNone \<or> (\<not> is_list results \<and> \<not> is_dict results) \<longrightarrow>
      extract_contents results = Inr ('''', [])"
    by (cases results) (simp_all add: extract_contents_def py_join_Nil strip_Nil)
  show "(\<exists>text sources. extract_contents results = Inr (text, sources)) \<longleftrightarrow>
        results = PNone \<or> list_all is_str (concat (map spec_fragments (docs_of results)))"
  proof (cases "results = PNone")
    case True
    then show ?thesis by (simp add: extract_contents_def)
  next
    case False
    then show ?thesis
      by (simp add: extract_contents_spec py_join_def)
  qed
  show "\<forall>e. extract_contents results = Inl e \<longrightarrow> e = TypeError"
    by (simp add: extract_contents_def py_join_def Let_def)
qed

theorem extract_contents_fail_open_witness:
  "\<not> is_list (PInt 42) \<and> \<not> is_dict (PInt 42) \<and> extract_contents (PInt 42) = Inr ('''', [])"
  using extract_contents_fail_open [of "PInt 42"] by simp

text \<open>
  C3. A mapping with a field "results" whose value is a sequence gives the same result
  as that sequence passed directly.
\<close>

theorem results_field_same_as_sequence:
  "map_of kv ''results'' = Some (PList s) \<Longrightarrow>
   extract_contents (PDict kv) = extract_contents (PList s)"
  by (simp add: extract_contents_def)

theorem results_field_same_as_sequence_witness:
  "map_of [(''results'', PList [PDict [(''content'', PStr ''a'')]])] ''results''
     = Some (PList [PDict [(''content'', PStr ''a'')]])
   \<and> extract_contents (PDict [(''results'', PList [PDict [(''content'', PStr ''a'')]])])
     = extract_contents (PList [PDict [(''content'', PStr ''a'')]])"
proof -
  have h: "map_of [(''results'', PList [PDict [(''content'', PStr ''a'')]])] ''results''
     = Some (PList [PDict [(''content'', PStr ''a'')]])"
    by simp
  from h results_field_same_as_sequence [OF h] show ?thesis by (rule conjI)
qed

text \<open>
  C9. Every citation in the sources that \<^verbatim>\<open>extract_contents\<close> returns is a mapping of
  "title" and "url" of which at least one is non-empty.
\<close>

theorem sources_are_valid_citations:
  "extract_contents results = Inr (text, sources) \<Longrightarrow> s \<in> set sources \<Longrightarrow>
   \<exists>title url. s = PDict [(''title'', title), (''url'', url)] \<and> (truthy title \<or> truthy url)"
proof (cases "results = PNone")
  case True
  assume "extract_contents results = Inr (text, sources)" "s \<in> set sources"
  with True show ?thesis by (simp add: extract_contents_def)
next
  case False
  assume r: "extract_contents results = Inr (text, sources)" and s: "s \<in> set sources"
  from r False have "sources = concat (map spec_citations (docs_of results))"
    by (simp add: extract_contents_spec split: sum.splits)
  with s obtain d where "s \<in> set (spec_citations d)" by auto
  then show ?thesis by (rule spec_citations_valid)
qed

theorem sources_are_valid_citations_witness:
  "extract_contents (PList [PDict [(''link'', PStr ''u'')]])
     = Inr ('''', [PDict [(''title'', PStr ''''), (''url'', PStr ''u'')]])
   \<and> (\<exists>title url. PDict [(''title'', PStr ''''), (''url'', PStr ''u'')]
         = PDict [(''title'', title), (''url'', url)] \<and> (truthy title \<or> truthy url))"
proof -
  have r: "extract_contents (PList [PDict [(''link'', PStr ''u'')]])
     = Inr ('''', [PDict [(''title'', PStr ''''), (''url'', PStr ''u'')]])"
    by (simp add: extract_contents_def loop_body_def dict_get_def py_or_def py_join_def strip_def)
  have m: "PDict [(''title'', PStr ''''), (''url'', PStr ''u'')]
     \<in> set [PDict [(''title'', PStr ''''), (''url'', PStr ''u'')]]"
    by simp
  from r sources_are_valid_citations [OF r m] show ?thesis by (rule conjI)
qed

section \<open>Properties of secret resolution\<close>

text \<open>
  C8. \<^verbatim>\<open>get_secret\<close> returns the environment's value when the variable exists and is
  non-empty. Otherwise it asks the secret store: it returns the default when the store's
  lookup raises or the key is absent, and the stored value when the key is present.
\<close>

theorem get_secret_resolution:
  "(\<forall>v. env key = Some v \<and> v \<noteq> [] \<longrightarrow> get_secret env store key dflt = PStr v)
   \<and> (env key = None \<or> env key = Some [] \<longrightarrow>
        (\<forall>e. secrets_get store key dflt = Inl e \<longrightarrow> get_secret env store key dflt = dflt)
      \<and> (store = StoreUnavailable \<longrightarrow> get_secret env store key dflt = dflt)
      \<and> (\<forall>m. store = Store m \<and> m key = None \<longrightarrow> get_secret env store key dflt = dflt)
      \<and> (\<forall>m x. store = Store m \<and> m key = Some x \<longrightarrow> get_secret env store key dflt = x))"
  by (auto simp: get_secret_def getenv_def secrets_get_def)

theorem get_secret_resolution_witness:
  "get_secret [''K'' \<mapsto> ''v''] StoreUnavailable ''K'' (PStr ''d'') = PStr ''v''
   \<and> get_secret [''K'' \<mapsto> ''''] StoreUnavailable ''K'' (PStr ''d'') = PStr ''d''
   \<and> get_secret Map.empty (Store Map.empty) ''K'' (PStr ''d'') = PStr ''d''
   \<and> get_secret Map.empty (Store [''K'' \<mapsto> PStr ''s'']) ''K'' (PStr ''d'') = PStr ''s''"
  using get_secret_resolution [of "[''K'' \<mapsto> ''v'']" "''K''" StoreUnavailable "PStr ''d''"]
    get_secret_resolution [of "[''K'' \<mapsto> '''']" "''K''" StoreUnavailable "PStr ''d''"]
    get_secret_resolution [of Map.empty "''K''" "Store Map.empty" "PStr ''d''"]
    get_secret_resolution [of Map.empty "''K''" "Store [''K'' \<mapsto> PStr ''s'']" "PStr ''d''"]
  by simp

section \<open>Properties of the search client\<close>

lemma tavily_search_calls:
  "snd (tavily_search net key cap query) =
     (if isl (net (TavilyRun key cap query))
      then [TavilyRun key cap query, TavilyInvoke key cap query]
      else [TavilyRun key cap query])"
  by (simp add: tavily_search_def split: sum.splits)

lemma tavily_search_no_llm: "\<not> list_ex is_llm_call (snd (tavily_search net key cap query))"
  by (simp add: tavily_search_calls)

lemma tavily_search_no_report: "\<not> list_ex is_report_call (snd (tavily_search net key cap query))"
  by (simp add: tavily_search_calls)

lemma tavily_search_keys:
  "c \<in> set (snd (tavily_search net key cap query)) \<Longrightarrow> call_key c = key"
  by (auto simp: tavily_search_calls split: if_splits)

text \<open>
  C4, as stated: the alternate style is tried only when the primary call surface is
  not supported, not on a transient error. It is tried on a transient error too: with a
  \<^verbatim>\<open>run\<close> that fails with a connection error, \<^verbatim>\<open>invoke\<close> is called and its answer returned.
\<close>

theorem tavily_search_transient_counterexample:
  "flaky_services (TavilyRun (PStr ''tv'') 3 ''q'') = Inl ConnectionError
   \<and> tavily_search flaky_services (PStr ''tv'') 3 ''q''
       = (Inr (PList []), [TavilyRun (PStr ''tv'') 3 ''q'', TavilyInvoke (PStr ''tv'') 3 ''q''])"
  by (simp add: flaky_services_def tavily_search_def)

text \<open>
  C4, amended. \<^verbatim>\<open>tavily_search\<close> calls the primary style first. It calls the alternate
  style, with the same key, result cap and query, exactly when the primary call raised an
  exception, whatever the exception; it then returns or raises what the alternate call
  does. It makes at most these two calls, each at most once, and when the primary call
  returns, it returns that value after that one call.
\<close>

theorem tavily_search_one_fallback:
  "hd (snd (tavily_search net key cap query)) = TavilyRun key cap query
   \<and> length (snd (tavily_search net key cap query)) \<le> 2
   \<and> distinct (snd (tavily_search net key cap query))
   \<and> set (snd (tavily_search net key cap query))
       \<subseteq> {TavilyRun key cap query, TavilyInvoke key cap query}
   \<and> (TavilyInvoke key cap query \<in> set (snd (tavily_search net key cap query))
        \<longleftrightarrow> (\<exists>e. net (TavilyRun key cap query) = Inl e))
   \<and> (\<forall>r. net (TavilyRun key cap query) = Inr r \<longrightarrow>
         tavily_search net key cap query = (Inr r, [TavilyRun key cap query]))
   \<and> (\<forall>e. net (TavilyRun key cap query) = Inl e \<longrightarrow>
         fst (tavily_search net key cap query) = net (TavilyInvoke key cap query))"
  by (cases "net (TavilyRun key cap query)") (simp_all add: tavily_search_def)

theorem tavily_search_one_fallback_witness:
  "flaky_services (TavilyRun (PStr ''tv'') 3 ''q'') = Inl ConnectionError
   \<and> fst (tavily_search flaky_services (PStr ''tv'') 3 ''q'')
       = flaky_services (TavilyInvoke (PStr ''tv'') 3 ''q'')
   \<and> length (snd (tavily_search flaky_services (PStr ''tv'') 3 ''q'')) \<le> 2"
proof -
  have h: "flaky_services (TavilyRun (PStr ''tv'') 3 ''q'') = Inl ConnectionError"
    by (simp add: flaky_services_def)
  from tavily_search_one_fallback [of flaky_services "PStr ''tv''" 3 "''q''"] h
  show ?thesis by blast
qed

section \<open>Properties of the page script\<close>

lemma handler_keys:
  "c \<in> set (snd (handler w ok tk)) \<Longrightarrow> call_key c = ok \<or> call_key c = tk"
  by (auto simp: handler_def Let_def dest: tavily_search_keys split: sum.splits if_splits)

lemma handler_empty_text:
  assumes "fst (tavily_search (services w) tk (max_results w)
             (strip (stock_name w) @ news_suffix w)) = Inr results"
    and "extract_contents results = Inr ('''', sources)"
  shows "handler w ok tk =
           (Stopped NoContent,
            snd (tavily_search (services w) tk (max_results w)
                   (strip (stock_name w) @ news_suffix w)))"
  using assms by (simp add: handler_def Let_def)

lemma app_demo_world:
  "app (demo_world net) = handler (demo_world net) (PStr ''sk'') (PStr ''tv'')"
  by (simp add: app_def demo_world_def startup_env_def setdefault_def get_secret_def
        getenv_def strip_def is_space_def)

text \<open>
  C5. When either required secret resolves to the empty string, the script stops with
  the missing-configuration message and has made no call to the search or generation
  services. No call the script ever makes carries an empty credential.
\<close>

theorem missing_secret_halts_before_network:
  "(get_secret (startup_env (environ w)) (secrets w) ''OPENAI_API_KEY'' (PStr '''') = PStr ''''
    \<or> get_secret (startup_env (environ w)) (secrets w) ''TAVILY_API_KEY'' (PStr '''') = PStr ''''
    \<longrightarrow> snd (app w) = []
        \<and> (fst (app w) = Stopped (MissingConfiguration ''OPENAI_API_KEY'')
           \<or> fst (app w) = Stopped (MissingConfiguration ''TAVILY_API_KEY'')))
   \<and> (\<forall>c \<in> set (snd (app w)). truthy (call_key c))"
proof (intro conjI ballI)
  show "get_secret (startup_env (environ w)) (secrets w) ''OPENAI_API_KEY'' (PStr '''') = PStr ''''
    \<or> get_secret (startup_env (environ w)) (secrets w) ''TAVILY_API_KEY'' (PStr '''') = PStr ''''
    \<longrightarrow> snd (app w) = []
        \<and> (fst (app w) = Stopped (MissingConfiguration ''OPENAI_API_KEY'')
           \<or> fst (app w) = Stopped (MissingConfiguration ''TAVILY_API_KEY''))"
    by (auto simp: app_def Let_def)
next
  fix c assume "c \<in> set (snd (app w))"
  then show "truthy (call_key c)"
    by (auto simp: app_def Let_def dest: handler_keys split: if_splits)
qed

theorem missing_secret_halts_before_network_witness:
  "get_secret (startup_env (environ keyless_world)) (secrets keyless_world)
      ''TAVILY_API_KEY'' (PStr '''') = PStr ''''
   \<and> app keyless_world = (Stopped (MissingConfiguration ''TAVILY_API_KEY''), [])
   \<and> snd (app (demo_world flaky_services))
       = [TavilyRun (PStr ''tv'') 3 ''ACME news'', TavilyInvoke (PStr ''tv'') 3 ''ACME news'']
   \<and> truthy (call_key (TavilyInvoke (PStr ''tv'') 3 ''ACME news''))"
proof -
  have h: "get_secret (startup_env (environ keyless_world)) (secrets keyless_world)
      ''TAVILY_API_KEY'' (PStr '''') = PStr ''''"
    by (simp add: keyless_world_def demo_world_def startup_env_def setdefault_def
          get_secret_def getenv_def secrets_get_def)
  have o: "fst (app keyless_world) \<noteq> Stopped (MissingConfiguration ''OPENAI_API_KEY'')"
    by (simp add: app_def keyless_world_def demo_world_def startup_env_def setdefault_def
          get_secret_def getenv_def secrets_get_def)
  have c: "snd (app (demo_world flaky_services))
       = [TavilyRun (PStr ''tv'') 3 ''ACME news'', TavilyInvoke (PStr ''tv'') 3 ''ACME news'']"
    unfolding app_demo_world
    by (simp add: handler_def tavily_search_def demo_world_def flaky_services_def
          strip_def is_space_def extract_contents_def py_join_Nil Let_def)
  have k: "app keyless_world = (Stopped (MissingConfiguration ''TAVILY_API_KEY''), [])"
    using missing_secret_halts_before_network [of keyless_world] h o
    by (cases "app keyless_world") auto
  have t: "truthy (call_key (TavilyInvoke (PStr ''tv'') 3 ''ACME news''))"
    using missing_secret_halts_before_network [of "demo_world flaky_services"] c by simp
  from h k c t show ?thesis by simp
qed

text \<open>
  C6. When the text normalized from the search result is empty, as it is for the empty
  list, the action stops with the no-content message after the search calls alone:
  neither generation stage is called.
\<close>

theorem empty_text_halts_without_generation:
  assumes "fst (tavily_search (services w) tk (max_results w)
             (strip (stock_name w) @ news_suffix w)) = Inr results"
    and "extract_contents results = Inr ('''', sources)"
  shows "handler w ok tk =
           (Stopped NoContent,
            snd (tavily_search (services w) tk (max_results w)
                   (strip (stock_name w) @ news_suffix w)))
         \<and> \<not> list_ex is_llm_call (snd (handler w ok tk))"
  using handler_empty_text [OF assms, of ok] by (simp add: tavily_search_no_llm)

theorem empty_text_halts_without_generation_witness:
  "extract_contents (PList []) = Inr ('''', [])
   \<and> app (demo_world (fixed_services (PList []) (PStr ''ok'')))
       = (Stopped NoContent, [TavilyRun (PStr ''tv'') 3 ''ACME news''])
   \<and> \<not> list_ex is_llm_call
         (snd (handler (demo_world (fixed_services (PList []) (PStr ''ok'')))
                 (PStr ''sk'') (PStr ''tv'')))"
proof -
  let ?w = "demo_world (fixed_services (PList []) (PStr ''ok''))"
  have s: "fst (tavily_search (services ?w) (PStr ''tv'') (max_results ?w)
             (strip (stock_name ?w) @ news_suffix ?w)) = Inr (PList [])"
    by (simp add: demo_world_def fixed_services_def tavily_search_def)
  have e: "extract_contents (PList []) = Inr ('''', [])"
    by (simp add: extract_contents_def py_join_Nil strip_Nil)
  have c: "snd (tavily_search (services ?w) (PStr ''tv'') (max_results ?w)
             (strip (stock_name ?w) @ news_suffix ?w)) = [TavilyRun (PStr ''tv'') 3 ''ACME news'']"
    by (simp add: demo_world_def fixed_services_def tavily_search_def strip_def is_space_def)
  from empty_text_halts_without_generation [OF s e, of "PStr ''sk''"] e c
  show ?thesis by (simp add: app_demo_world)
qed

text \<open>
  C7. When the keyword-extraction call raises, the action stops with the generation
  failure of the keywords stage, and the report stage is never called.
\<close>

theorem keyword_failure_stops_pipeline:
  assumes "fst (tavily_search (services w) tk (max_results w)
             (strip (stock_name w) @ news_suffix w)) = Inr results"
    and "extract_contents results = Inr (text, sources)"
    and "text \<noteq> []"
    and "services w (LLMInvoke ok (model w) (temperature w)
           (KeywordPrompt (stock_name w) text)) = Inl e"
  shows "handler w ok tk =
           (Stopped (GenerationFailed Keywords e),
            snd (tavily_search (services w) tk (max_results w)
                   (strip (stock_name w) @ news_suffix w))
            @ [LLMInvoke ok (model w) (temperature w) (KeywordPrompt (stock_name w) text)])
         \<and> \<not> list_ex is_report_call (snd (handler w ok tk))"
proof -
  from assms have h: "handler w ok tk =
           (Stopped (GenerationFailed Keywords e),
            snd (tavily_search (services w) tk (max_results w)
                   (strip (stock_name w) @ news_suffix w))
            @ [LLMInvoke ok (model w) (temperature w) (KeywordPrompt (stock_name w) text)])"
    by (simp add: handler_def Let_def llm_stage_def)
  then show ?thesis by (simp add: tavily_search_no_report)
qed

theorem keyword_failure_stops_pipeline_witness:
  "app (demo_world (llm_down_services (PList [PDict [(''content'', PStr ''x'')]])))
     = (Stopped (GenerationFailed Keywords ConnectionError),
        [TavilyRun (PStr ''tv'') 3 ''ACME news'',
         LLMInvoke (PStr ''sk'') ''gpt-4o-mini'' 0.2 (KeywordPrompt ''ACME'' ''x'')])
   \<and> \<not> list_ex is_report_call
         (snd (handler (demo_world (llm_down_services (PList [PDict [(''content'', PStr ''x'')]])))
                 (PStr ''sk'') (PStr ''tv'')))"
proof -
  let ?p = "PList [PDict [(''content'', PStr ''x'')]]"
  let ?w = "demo_world (llm_down_services ?p)"
  have s: "fst (tavily_search (services ?w) (PStr ''tv'') (max_results ?w)
             (strip (stock_name ?w) @ news_suffix ?w)) = Inr ?p"
    by (simp add: demo_world_def llm_down_services_def tavily_search_def)
  have e: "extract_contents ?p = Inr (''x'', [])"
    by (simp add: extract_contents_def loop_body_def dict_get_def py_or_def py_join_def
          strip_def is_space_def)
  have n: "''x'' \<noteq> ([] :: string)" by simp
  have f: "services ?w (LLMInvoke (PStr ''sk'') (model ?w) (temperature ?w)
           (KeywordPrompt (stock_name ?w) ''x'')) = Inl ConnectionError"
    by (simp add: demo_world_def llm_down_services_def)
  have c: "snd (tavily_search (services ?w) (PStr ''tv'') (max_results ?w)
             (strip (stock_name ?w) @ news_suffix ?w)) = [TavilyRun (PStr ''tv'') 3 ''ACME news'']"
    by (simp add: demo_world_def llm_down_services_def tavily_search_def strip_def is_space_def)
  have m: "model ?w = ''gpt-4o-mini'' \<and> temperature ?w = 0.2 \<and> stock_name ?w = ''ACME''"
    by (simp add: demo_world_def)
  from keyword_failure_stops_pipeline [OF s e n f] c m
  show ?thesis by (simp add: app_demo_world)
qed

text \<open>
  C10. Text and citations are taken from a document independently. A single mapping with
  a title or a url but neither "content" nor "snippet" gives empty text together with a
  non-empty list of sources, and the action then stops with the no-content message, with
  no generation call, although a citation was found.
\<close>

theorem citations_found_but_no_content:
  assumes "map_of kv ''content'' = None" and "map_of kv ''snippet'' = None"
    and "map_of kv ''results'' = None"
    and "truthy (dict_get kv ''title'') \<or> truthy (dict_get kv ''url'')"
    and "fst (tavily_search (services w) tk (max_results w)
             (strip (stock_name w) @ news_suffix w)) = Inr (PDict kv)"
  shows "(\<exists>sources. sources \<noteq> [] \<and> extract_contents (PDict kv) = Inr ('''', sources))
         \<and> fst (handler w ok tk) = Stopped NoContent
         \<and> \<not> list_ex is_llm_call (snd (handler w ok tk))"
proof -
  have e: "extract_contents (PDict kv) = Inr ([], spec_citations (PDict kv))"
    using assms(1-3)
    by (simp add: extract_contents_spec spec_fragments_def first_non_empty_def field_def
          dict_get_def py_join_Nil strip_Nil)
  have s: "spec_citations (PDict kv) \<noteq> []"
    using assms(4)
    by (auto simp: spec_citations_def first_non_empty_def field_def Let_def)
  from handler_empty_text [OF assms(5) e, of ok] s e show ?thesis
    by (auto simp: tavily_search_no_llm)
qed

theorem citations_found_but_no_content_witness:
  "extract_contents (PDict [(''title'', PStr ''T'')])
     = Inr ('''', [PDict [(''title'', PStr ''T''), (''url'', PStr '''')]])
   \<and> fst (app (demo_world (fixed_services (PDict [(''title'', PStr ''T'')]) (PStr ''ok''))))
       = Stopped NoContent"
proof -
  let ?kv = "[(''title'', PStr ''T'')]"
  let ?w = "demo_world (fixed_services (PDict ?kv) (PStr ''ok''))"
  have k: "map_of ?kv ''content'' = None" "map_of ?kv ''snippet'' = None"
    "map_of ?kv ''results'' = None" by simp_all
  have t: "truthy (dict_get ?kv ''title'') \<or> truthy (dict_get ?kv ''url'')"
    by (simp add: dict_get_def)
  have s: "fst (tavily_search (services ?w) (PStr ''tv'') (max_results ?w)
             (strip (stock_name ?w) @ news_suffix ?w)) = Inr (PDict ?kv)"
    by (simp add: demo_world_def fixed_services_def tavily_search_def)
  have e: "extract_contents (PDict ?kv)
     = Inr ('''', [PDict [(''title'', PStr ''T''), (''url'', PStr '''')]])"
    by (simp add: extract_contents_def loop_body_def dict_get_def py_or_def py_join_def strip_def)
  from citations_found_but_no_content [OF k t s, of "PStr ''sk''"] e
  show ?thesis by (simp add: app_demo_world)
qed

end
